theory Spec2Isabelle
  imports Main "HOL-Library.Sublist"
begin

section \<open>Python values\<close>

text \<open>
  The client of \<^verbatim>\<open>frontend/app.py\<close> handles three kinds of Python values: text typed
  by the user, whatever \<^verbatim>\<open>response.json()\<close> decodes from the backend's reply, and
  exceptions.  A decoded reply is untyped, so it is modelled by the whole range of
  \<^verbatim>\<open>json.loads\<close>: \<^verbatim>\<open>None\<close>, \<^verbatim>\<open>bool\<close>, \<^verbatim>\<open>int\<close>, \<^verbatim>\<open>float\<close>, \<^verbatim>\<open>str\<close>, \<^verbatim>\<open>list\<close> and
  \<^verbatim>\<open>dict\<close>.  A \<^verbatim>\<open>dict\<close> is an association list in insertion order; the first binding
  of a key is its value.  Strings are lists of ASCII characters.
\<close>

datatype pyfloat = Finite int int | PosInf | NegInf | NaN

datatype json =
    JNull
  | JBool bool
  | JInt int
  | JFloat pyfloat
  | JStr string
  | JArr "json list"
  | JObj "(string \<times> json) list"

text \<open>\<^verbatim>\<open>Finite m e\<close> is the float \<open>m * 2^e\<close>; only its being zero is ever observed.\<close>

definition float_is_zero :: "pyfloat \<Rightarrow> bool" where
  "float_is_zero f = (case f of Finite m e \<Rightarrow> m = 0 | _ \<Rightarrow> False)"

text \<open>Truth value of a Python value, as \<^verbatim>\<open>if v:\<close> tests it.\<close>

definition truthy :: "json \<Rightarrow> bool" where
  "truthy v =
     (case v of
        JNull \<Rightarrow> False
      | JBool b \<Rightarrow> b
      | JInt i \<Rightarrow> i \<noteq> 0
      | JFloat f \<Rightarrow> \<not> float_is_zero f
      | JStr s \<Rightarrow> s \<noteq> []
      | JArr xs \<Rightarrow> xs \<noteq> []
      | JObj kvs \<Rightarrow> kvs \<noteq> [])"

definition type_name :: "json \<Rightarrow> string" where
  "type_name v =
     (case v of
        JNull \<Rightarrow> ''NoneType''
      | JBool b \<Rightarrow> ''bool''
      | JInt i \<Rightarrow> ''int''
      | JFloat f \<Rightarrow> ''float''
      | JStr s \<Rightarrow> ''str''
      | JArr xs \<Rightarrow> ''list''
      | JObj kvs \<Rightarrow> ''dict'')"

section \<open>Exceptions\<close>

text \<open>
  The exception classes that reach the handlers of \<^verbatim>\<open>render_chat_interface\<close>.
  \<^verbatim>\<open>RequestException\<close> and \<^verbatim>\<open>Exception\<close> also stand for their subclasses that are not
  listed.  \<^verbatim>\<open>RequestsJSONDecodeError\<close> is \<^verbatim>\<open>requests.exceptions.JSONDecodeError\<close>, the
  class \<^verbatim>\<open>Response.json()\<close> raises since requests 2.27; it derives from
  \<^verbatim>\<open>InvalidJSONError\<close>, a \<^verbatim>\<open>RequestException\<close>, and from \<^verbatim>\<open>json.JSONDecodeError\<close>.
  \<^verbatim>\<open>JSONDecodeError\<close> is \<^verbatim>\<open>json.JSONDecodeError\<close> itself, a \<^verbatim>\<open>ValueError\<close>.
\<close>

datatype exc_class =
    ConnectionError
  | HTTPError
  | RequestsJSONDecodeError
  | RequestException
  | JSONDecodeError
  | KeyError
  | TypeError
  | AttributeError
  | Exception

text \<open>An exception value: its class and the text \<^verbatim>\<open>str(e)\<close>.\<close>

datatype exn = Exn (cls: exc_class) (str: string)

definition is_subclass :: "exc_class \<Rightarrow> exc_class \<Rightarrow> bool" where
  "is_subclass c d =
     (c = d \<or> d = Exception
      \<or> (d = RequestException \<and> (c = ConnectionError \<or> c = HTTPError \<or> c = RequestsJSONDecodeError))
      \<or> (d = JSONDecodeError \<and> c = RequestsJSONDecodeError))"

definition isinstance :: "exn \<Rightarrow> exc_class \<Rightarrow> bool" where
  "isinstance e d = is_subclass (cls e) d"

text \<open>
  The errors the interpreter itself raises on the untyped data.  Their texts follow
  CPython 3.12 and Streamlit 1.3x; they only ever appear behind the prefix
  \<^verbatim>\<open>Unexpected Error:\<close>.
\<close>

definition quoted :: "string \<Rightarrow> string" where
  "quoted s = CHR 0x27 # s @ [CHR 0x27]"

definition key_error :: "string \<Rightarrow> exn" where
  "key_error k = Exn KeyError (quoted k)"

definition not_subscriptable :: "json \<Rightarrow> exn" where
  "not_subscriptable v = Exn TypeError (quoted (type_name v) @ '' object is not subscriptable'')"

definition not_iterable :: "json \<Rightarrow> exn" where
  "not_iterable v = Exn TypeError (quoted (type_name v) @ '' object is not iterable'')"

definition not_container :: "json \<Rightarrow> exn" where
  "not_container v = Exn TypeError (''argument of type '' @ quoted (type_name v) @ '' is not iterable'')"

definition unhashable :: "json \<Rightarrow> exn" where
  "unhashable v = Exn TypeError (''unhashable type: '' @ quoted (type_name v))"

definition no_attribute :: "json \<Rightarrow> string \<Rightarrow> exn" where
  "no_attribute v a =
     Exn AttributeError (quoted (type_name v) @ '' object has no attribute '' @ quoted a)"

definition no_session_attribute :: "string \<Rightarrow> exn" where
  "no_session_attribute a =
     Exn AttributeError (''st.session_state has no attribute '' @ [CHR 0x22] @ a @ [CHR 0x22]
        @ ''. Did you forget to initialize it? More info: ''
        @ ''https://docs.streamlit.io/develop/concepts/architecture/session-state#initialization'')"

section \<open>Operations on untyped values\<close>

text \<open>\<^verbatim>\<open>v[k]\<close> for a string key \<open>k\<close>.\<close>

definition subscript :: "json \<Rightarrow> string \<Rightarrow> exn + json" where
  "subscript v k =
     (case v of
        JObj kvs \<Rightarrow> (case map_of kvs k of Some x \<Rightarrow> Inr x | None \<Rightarrow> Inl (key_error k))
      | JStr s \<Rightarrow> Inl (Exn TypeError (''string indices must be integers, not '' @ quoted ''str''))
      | JArr xs \<Rightarrow> Inl (Exn TypeError ''list indices must be integers or slices, not str'')
      | _ \<Rightarrow> Inl (not_subscriptable v))"

text \<open>
  \<^verbatim>\<open>k in v\<close> for a string \<open>k\<close>: a key of a dict, an element of a list, a substring of a
  string; any other value is no container.
\<close>

definition contains :: "string \<Rightarrow> json \<Rightarrow> exn + bool" where
  "contains k v =
     (case v of
        JObj kvs \<Rightarrow> Inr (map_of kvs k \<noteq> None)
      | JArr xs \<Rightarrow> Inr (List.member xs (JStr k))
      | JStr s \<Rightarrow> Inr (sublist k s)
      | _ \<Rightarrow> Inl (not_container v))"

text \<open>\<^verbatim>\<open>data.get(k, default)\<close>: only a dict has the method.\<close>

definition dict_get :: "json \<Rightarrow> string \<Rightarrow> json \<Rightarrow> exn + json" where
  "dict_get data k dflt =
     (case data of
        JObj kvs \<Rightarrow> Inr (case map_of kvs k of Some x \<Rightarrow> x | None \<Rightarrow> dflt)
      | _ \<Rightarrow> Inl (no_attribute data ''get''))"

text \<open>
  \<^verbatim>\<open>for event in v\<close>: the elements of a list, the keys of a dict, the characters of a
  string.
\<close>

definition iterate :: "json \<Rightarrow> exn + json list" where
  "iterate v =
     (case v of
        JArr xs \<Rightarrow> Inr xs
      | JObj kvs \<Rightarrow> Inr (map (\<lambda>kv. JStr (fst kv)) kvs)
      | JStr s \<Rightarrow> Inr (map (\<lambda>c. JStr [c]) s)
      | _ \<Rightarrow> Inl (not_iterable v))"

section \<open>Session state\<close>

text \<open>
  A chat message is the dict \<^verbatim>\<open>{"role": ..., "content": ...}\<close>.  The content is the
  user's text, an error text, or the backend's \<^verbatim>\<open>response\<close> value as decoded.
  \<^verbatim>\<open>st.session_state\<close> holds three keys, each of which may be absent.
\<close>

record message =
  role :: string
  content :: json

record session_state =
  messages :: "message list option"
  session_id :: "string option"
  web_search_enabled :: "bool option"

definition empty_state :: session_state where
  "empty_state = \<lparr>messages = None, session_id = None, web_search_enabled = None\<rparr>"

definition greeting :: message where
  "greeting = \<lparr>role = ''assistant'', content = JStr ''Hello! How can I help you today?''\<rparr>"

text \<open>
  \<^verbatim>\<open>init_session_state\<close>; \<open>uuid4\<close> is the value \<^verbatim>\<open>str(uuid.uuid4())\<close> would return if
  called.  The greeting is appended to the list that the first test has made sure of.
\<close>

definition init_session_state :: "string \<Rightarrow> session_state \<Rightarrow> session_state" where
  "init_session_state uuid4 st =
     (let st1 = (if messages st = None then st\<lparr>messages := Some []\<rparr> else st);
          st2 = (if session_id st1 = None
                 then st1\<lparr>session_id := Some uuid4,
                          messages := map_option (\<lambda>ms. ms @ [greeting]) (messages st1)\<rparr>
                 else st1)
      in if web_search_enabled st2 = None then st2\<lparr>web_search_enabled := Some True\<rparr> else st2)"

section \<open>What is put on the page\<close>

text \<open>
  The Streamlit calls are kept as a log of widgets.  A text is a list of parts, so that
  an f-string keeps the values it interpolates: \<open>Lit\<close> is text of the source or of
  an exception, \<open>Val v\<close> is \<^verbatim>\<open>str(v)\<close> of a runtime value, \<open>Icon\<close> is one of the
  pictographs of the source.  \<^verbatim>\<open>st.chat_message\<close> and \<^verbatim>\<open>st.expander\<close> are containers;
  \<^verbatim>\<open>st.spinner\<close> leaves nothing on the page.  The widget calls themselves do not raise.
\<close>

datatype icon = RightArrow | Books | Globe | LightBulb | CheckMark | Gear | Microscope

datatype part = Lit string | Val json | Icon icon

datatype widget =
    Header "part list"
  | Subheader "part list"
  | Write "part list"
  | Success "part list"
  | Warning "part list"
  | Error "part list"
  | Markdown "part list"
  | Json json
  | ChatMessage string "widget list"
  | Expander "part list" "widget list"

section \<open>The trace display\<close>

definition icon_map :: "string \<rightharpoonup> icon" where
  "icon_map =
     [''router'' \<mapsto> RightArrow, ''rag_lookup'' \<mapsto> Books, ''web_search'' \<mapsto> Globe,
      ''answer'' \<mapsto> LightBulb, ''__end__'' \<mapsto> CheckMark]"

text \<open>
  \<^verbatim>\<open>icon_map.get(event['node_name'], gear)\<close>: the key is hashed, which a list or a dict
  refuses; a key that is no string equals none of the five names.
\<close>

definition icon_for :: "json \<Rightarrow> exn + icon" where
  "icon_for node_name =
     (case node_name of
        JStr s \<Rightarrow> Inr (case icon_map s of Some i \<Rightarrow> i | None \<Rightarrow> Gear)
      | JArr xs \<Rightarrow> Inl (unhashable node_name)
      | JObj kvs \<Rightarrow> Inl (unhashable node_name)
      | _ \<Rightarrow> Inr Gear)"

text \<open>
  The \<^verbatim>\<open>if\<close>/\<^verbatim>\<open>elif\<close> chain on the details of one event (source lines 147 to 161).
  Each test reads \<^verbatim>\<open>event['details']\<close> anew, and \<^verbatim>\<open>and\<close> reads it only when the name
  matches.  Every raise of the chain comes before its first widget.
\<close>

definition rag_verdict :: "json \<Rightarrow> exn + widget list" where
  "rag_verdict details =
     (case subscript details ''sufficiency_verdict'' of
        Inl e \<Rightarrow> Inl e
      | Inr verdict \<Rightarrow>
          (let line =
                 (if verdict = JStr ''Sufficient''
                  then Success [Lit ''**RAG Verdict:** '', Val verdict,
                                Lit '' - Relevant info found in Knowledge Base.'']
                  else Warning [Lit ''**RAG Verdict:** '', Val verdict,
                                Lit '' - No sufficient info in Knowledge Base. Diverting to Web Search.''])
           in case contains ''retrieved_content_summary'' details of
                Inl e \<Rightarrow> Inl e
              | Inr False \<Rightarrow> Inr [line]
              | Inr True \<Rightarrow>
                  (case subscript details ''retrieved_content_summary'' of
                     Inl e \<Rightarrow> Inl e
                   | Inr summary \<Rightarrow>
                       Inr [line, Markdown [Lit ''**Retrieved Content Summary:** `'', Val summary,
                                            Lit ''`'']])))"

definition web_search_summary :: "json \<Rightarrow> exn + widget list" where
  "web_search_summary details =
     (case subscript details ''retrieved_content_summary'' of
        Inl e \<Rightarrow> Inl e
      | Inr summary \<Rightarrow>
          Inr [Markdown [Lit ''**Web Search Content Summary:** `'', Val summary, Lit ''`'']])"

definition other_details :: "json \<Rightarrow> exn + widget list" where
  "other_details event =
     (case subscript event ''details'' of
        Inl e \<Rightarrow> Inl e
      | Inr details \<Rightarrow> Inr (if truthy details then [Json details] else []))"

definition event_details :: "json \<Rightarrow> json \<Rightarrow> exn + widget list" where
  "event_details event node_name =
     (if node_name = JStr ''rag_lookup'' then
        (case subscript event ''details'' of
           Inl e \<Rightarrow> Inl e
         | Inr details \<Rightarrow>
             (case contains ''sufficiency_verdict'' details of
                Inl e \<Rightarrow> Inl e
              | Inr True \<Rightarrow> rag_verdict details
              | Inr False \<Rightarrow> other_details event))
      else if node_name = JStr ''web_search'' then
        (case subscript event ''details'' of
           Inl e \<Rightarrow> Inl e
         | Inr details \<Rightarrow>
             (case contains ''retrieved_content_summary'' details of
                Inl e \<Rightarrow> Inl e
              | Inr True \<Rightarrow> web_search_summary details
              | Inr False \<Rightarrow> other_details event))
      else other_details event)"

text \<open>
  The body of the loop for one event: the widgets put out, and the exception that cut
  the body short, if any.  The arguments of a call are evaluated before the call, so a
  widget whose text raises is not put out.
\<close>

definition display_event :: "json \<Rightarrow> widget list \<times> exn option" where
  "display_event event =
     (case subscript event ''node_name'' of
        Inl e \<Rightarrow> ([], Some e)
      | Inr node_name \<Rightarrow>
     (case icon_for node_name of
        Inl e \<Rightarrow> ([], Some e)
      | Inr icon \<Rightarrow>
     (case subscript event ''step'' of
        Inl e \<Rightarrow> ([], Some e)
      | Inr step \<Rightarrow>
     (let head = Subheader [Icon icon, Lit '' Step '', Val step, Lit '': '', Val node_name]
      in case subscript event ''description'' of
        Inl e \<Rightarrow> ([head], Some e)
      | Inr description \<Rightarrow>
     (let descr = Write [Lit ''**Description:** '', Val description]
      in case event_details event node_name of
        Inl e \<Rightarrow> ([head, descr], Some e)
      | Inr ws \<Rightarrow> ([head, descr] @ ws @ [Markdown [Lit ''---'']], None))))))"

text \<open>The loop stops at the first event that raises.\<close>

fun display_events :: "json list \<Rightarrow> widget list \<times> exn option" where
  "display_events [] = ([], None)"
| "display_events (event # events) =
     (case display_event event of
        (ws, Some e) \<Rightarrow> (ws, Some e)
      | (ws, None) \<Rightarrow> (case display_events events of (ws', r) \<Rightarrow> (ws @ ws', r)))"

definition display_trace_events :: "json \<Rightarrow> widget list \<times> exn option" where
  "display_trace_events trace_events =
     (if truthy trace_events then
        (case iterate trace_events of
           Inl e \<Rightarrow> ([Expander [Icon Microscope, Lit '' Agent Workflow Trace''] []], Some e)
         | Inr events \<Rightarrow>
             (case display_events events of
                (ws, r) \<Rightarrow> ([Expander [Icon Microscope, Lit '' Agent Workflow Trace''] ws], r)))
      else ([], None))"

section \<open>The chat client\<close>

text \<open>
  The backend is reached through \<^verbatim>\<open>requests.post\<close>, which either raises or returns a
  response.  Of a response the client uses the status code, the text that
  \<^verbatim>\<open>raise_for_status\<close> gives its \<^verbatim>\<open>HTTPError\<close>, and the body: either the value it
  decodes to, or the text of the decoding error.
\<close>

record payload =
  payload_session_id :: string
  payload_query :: string
  payload_enable_web_search :: bool

datatype body = Malformed string | Decoded json

record response =
  status_code :: nat
  http_error_msg :: string
  body :: body

datatype post_result = Raises exn | Returns response

type_synonym http_post = "string \<Rightarrow> payload \<Rightarrow> post_result"

text \<open>\<^verbatim>\<open>Response.raise_for_status\<close> raises for the codes 400 to 599 and for no other.\<close>

definition raise_for_status :: "response \<Rightarrow> exn + unit" where
  "raise_for_status r =
     (if 400 \<le> status_code r \<and> status_code r < 600
      then Inl (Exn HTTPError (http_error_msg r)) else Inr ())"

definition response_json :: "response \<Rightarrow> exn + json" where
  "response_json r =
     (case body r of
        Malformed msg \<Rightarrow> Inl (Exn RequestsJSONDecodeError msg)
      | Decoded data \<Rightarrow> Inr data)"

definition fallback_response :: string where
  "fallback_response = ''Sorry, I couldn't get a response from the agent.''"

definition call_backend_chat_api ::
  "http_post \<Rightarrow> string \<Rightarrow> string \<Rightarrow> string \<Rightarrow> bool \<Rightarrow> exn + (json \<times> json)" where
  "call_backend_chat_api post fastapi_base_url sid query enable_web_search =
     (case post (fastapi_base_url @ ''/chat/'')
             \<lparr>payload_session_id = sid, payload_query = query,
              payload_enable_web_search = enable_web_search\<rparr> of
        Raises e \<Rightarrow> Inl e
      | Returns response \<Rightarrow>
     (case raise_for_status response of
        Inl e \<Rightarrow> Inl e
      | Inr u \<Rightarrow>
     (case response_json response of
        Inl e \<Rightarrow> Inl e
      | Inr data \<Rightarrow>
     (case dict_get data ''response'' (JStr fallback_response) of
        Inl e \<Rightarrow> Inl e
      | Inr agent_response \<Rightarrow>
     (case dict_get data ''trace_events'' (JArr []) of
        Inl e \<Rightarrow> Inl e
      | Inr trace_events \<Rightarrow> Inr (agent_response, trace_events))))))"

section \<open>The chat interface\<close>

text \<open>
  One run of a rendering function: the session state it leaves, the widgets it has put
  out, the value it handed to \<^verbatim>\<open>display_trace_events\<close> if it called it, and the
  exception that left the function, if any.
\<close>

record run =
  state :: session_state
  shown :: "widget list"
  traced :: "json option"
  raised :: "exn option"

definition display_chat_history :: "message list \<Rightarrow> widget list" where
  "display_chat_history ms = map (\<lambda>m. ChatMessage (role m) [Markdown [Val (content m)]]) ms"

text \<open>
  The \<^verbatim>\<open>except\<close> clauses of \<^verbatim>\<open>render_chat_interface\<close>, tried in the order of the source:
  the error widget, and the content of the assistant message that is appended.
\<close>

definition handle :: "exn \<Rightarrow> widget \<times> json" where
  "handle e =
     (if isinstance e ConnectionError then
        (Error [Lit ''Could not connect to the FastAPI backend. Please ensure it's running.''],
         JStr ''Error: Could not connect to the backend.'')
      else if isinstance e RequestException then
        (Error [Lit ''An error occurred with the request: '', Lit (str e)],
         JStr (''Error: '' @ str e))
      else if isinstance e JSONDecodeError then
        (Error [Lit ''Received an invalid response from the backend.''],
         JStr ''Error: Invalid response from backend.'')
      else
        (Error [Lit ''An unexpected error occurred: '', Lit (str e)],
         JStr (''Unexpected Error: '' @ str e)))"

text \<open>
  The call of the \<^verbatim>\<open>try\<close> block with its arguments, read from the session state
  before the call.
\<close>

definition chat_call :: "http_post \<Rightarrow> string \<Rightarrow> string \<Rightarrow> session_state \<Rightarrow> exn + (json \<times> json)" where
  "chat_call post fastapi_base_url prompt st =
     (case session_id st of
        None \<Rightarrow> Inl (no_session_attribute ''session_id'')
      | Some sid \<Rightarrow>
     (case web_search_enabled st of
        None \<Rightarrow> Inl (no_session_attribute ''web_search_enabled'')
      | Some enabled \<Rightarrow> call_backend_chat_api post fastapi_base_url sid prompt enabled))"

definition assistant :: "json \<Rightarrow> message" where
  "assistant c = \<lparr>role = ''assistant'', content = c\<rparr>"

definition user :: "string \<Rightarrow> message" where
  "user prompt = \<lparr>role = ''user'', content = JStr prompt\<rparr>"

text \<open>
  \<^verbatim>\<open>render_chat_interface\<close>.  \<open>chat_input\<close> is what \<^verbatim>\<open>st.chat_input\<close> returns;
  \<^verbatim>\<open>None\<close> and the empty string skip the turn.  The user message is appended before the
  \<^verbatim>\<open>try\<close> block; the reply is appended inside it, before the trace is displayed, so an
  exception of the display finds the reply in place.
\<close>

definition render_chat_interface :: "http_post \<Rightarrow> string \<Rightarrow> string option \<Rightarrow> session_state \<Rightarrow> run" where
  "render_chat_interface post fastapi_base_url chat_input st =
     (case messages st of
        None \<Rightarrow>
          \<lparr>state = st, shown = [Header [Lit ''Chat with the Agent'']], traced = None,
           raised = Some (no_session_attribute ''messages'')\<rparr>
      | Some ms \<Rightarrow>
     (let page = Header [Lit ''Chat with the Agent''] # display_chat_history ms in
      case chat_input of
        None \<Rightarrow> \<lparr>state = st, shown = page, traced = None, raised = None\<rparr>
      | Some prompt \<Rightarrow>
     (if prompt = [] then \<lparr>state = st, shown = page, traced = None, raised = None\<rparr>
      else
     (let ms1 = ms @ [user prompt];
          said = ChatMessage ''user'' [Markdown [Val (JStr prompt)]]
      in case chat_call post fastapi_base_url prompt st of
        Inl e \<Rightarrow>
          \<lparr>state = st\<lparr>messages := Some (ms1 @ [assistant (snd (handle e))])\<rparr>,
           shown = page @ [said, ChatMessage ''assistant'' [fst (handle e)]],
           traced = None, raised = None\<rparr>
      | Inr (agent_response, trace_events) \<Rightarrow>
     (let ms2 = ms1 @ [assistant agent_response];
          reply = Markdown [Val agent_response]
      in case display_trace_events trace_events of
        (ws, None) \<Rightarrow>
          \<lparr>state = st\<lparr>messages := Some ms2\<rparr>,
           shown = page @ [said, ChatMessage ''assistant'' (reply # ws)],
           traced = Some trace_events, raised = None\<rparr>
      | (ws, Some e) \<Rightarrow>
          \<lparr>state = st\<lparr>messages := Some (ms2 @ [assistant (snd (handle e))])\<rparr>,
           shown = page @ [said, ChatMessage ''assistant'' (reply # ws @ [fst (handle e)])],
           traced = Some trace_events, raised = None\<rparr>)))))"

section \<open>The application\<close>

text \<open>
  \<^verbatim>\<open>load_config\<close>: the base URL from the environment, with its default.
\<close>

definition load_config :: "string option \<Rightarrow> string" where
  "load_config env = (case env of Some url \<Rightarrow> url | None \<Rightarrow> ''http://localhost:8000'')"

text \<open>
  \<^verbatim>\<open>render_agent_settings_section\<close>: the checkbox is given the stored flag as its
  value and answers with the flag the user has set, which is stored.
\<close>

definition render_agent_settings_section :: "(bool \<Rightarrow> bool) \<Rightarrow> session_state \<Rightarrow> exn + session_state" where
  "render_agent_settings_section checkbox st =
     (case web_search_enabled st of
        None \<Rightarrow> Inl (no_session_attribute ''web_search_enabled'')
      | Some enabled \<Rightarrow> Inr (st\<lparr>web_search_enabled := Some (checkbox enabled)\<rparr>))"

text \<open>
  What one run of the script is given from outside: the environment's base URL, the
  identifier \<^verbatim>\<open>uuid4\<close> would produce, the user's checkbox and chat input, and the
  network.
\<close>

record script_input =
  input_base_url :: "string option"
  input_uuid4 :: string
  input_checkbox :: "bool \<Rightarrow> bool"
  input_chat :: "string option"
  input_post :: http_post

text \<open>
  \<^verbatim>\<open>main\<close>, one run of the script on the session state the previous run has left.
  \<^verbatim>\<open>display_header\<close> and \<^verbatim>\<open>render_document_upload_section\<close> neither read nor write
  \<^verbatim>\<open>st.session_state\<close>, and the upload section catches every exception of its own
  request; their widgets and those of the settings section are left out here.
\<close>

definition main :: "script_input \<Rightarrow> session_state \<Rightarrow> run" where
  "main inp st =
     (let fastapi_base_url = load_config (input_base_url inp);
          st1 = init_session_state (input_uuid4 inp) st
      in case render_agent_settings_section (input_checkbox inp) st1 of
           Inl e \<Rightarrow> \<lparr>state = st1, shown = [], traced = None, raised = Some e\<rparr>
         | Inr st2 \<Rightarrow> render_chat_interface (input_post inp) fastapi_base_url (input_chat inp) st2)"

text \<open>The session state after a sequence of script runs, one per user action.\<close>

fun session :: "script_input list \<Rightarrow> session_state \<Rightarrow> session_state" where
  "session [] st = st"
| "session (inp # inps) st = session inps (state (main inp st))"

section \<open>Turns\<close>

text \<open>
  A script run is a user turn when its chat input is a non-empty text.  The turn is
  completed when the \<^verbatim>\<open>try\<close> block ran to its end: the chat call returned and the
  trace display raised nothing.  It has failed when the chat call raised.
\<close>

definition is_turn :: "script_input \<Rightarrow> bool" where
  "is_turn inp = (case input_chat inp of None \<Rightarrow> False | Some prompt \<Rightarrow> prompt \<noteq> [])"

definition turn_completed :: "http_post \<Rightarrow> string \<Rightarrow> string \<Rightarrow> session_state \<Rightarrow> bool" where
  "turn_completed post fastapi_base_url prompt st =
     (case chat_call post fastapi_base_url prompt st of
        Inl e \<Rightarrow> False
      | Inr (agent_response, trace_events) \<Rightarrow> snd (display_trace_events trace_events) = None)"

definition turn_failed :: "http_post \<Rightarrow> string \<Rightarrow> string \<Rightarrow> session_state \<Rightarrow> bool" where
  "turn_failed post fastapi_base_url prompt st =
     (case chat_call post fastapi_base_url prompt st of Inl e \<Rightarrow> True | Inr r \<Rightarrow> False)"

text \<open>
  The same for a whole script run, whose turn starts from the state that
  \<^verbatim>\<open>init_session_state\<close> and the settings section have left.
\<close>

definition successful_turn :: "script_input \<Rightarrow> session_state \<Rightarrow> bool" where
  "successful_turn inp st =
     (case input_chat inp of
        None \<Rightarrow> False
      | Some prompt \<Rightarrow>
          prompt \<noteq> [] \<and>
          (case render_agent_settings_section (input_checkbox inp)
                  (init_session_state (input_uuid4 inp) st) of
             Inl e \<Rightarrow> False
           | Inr st2 \<Rightarrow>
               turn_completed (input_post inp) (load_config (input_base_url inp)) prompt st2))"

text \<open>Every script run of the sequence that is a turn is a successful one.\<close>

fun only_successful_turns :: "script_input list \<Rightarrow> session_state \<Rightarrow> bool" where
  "only_successful_turns [] st = True"
| "only_successful_turns (inp # inps) st =
     ((if is_turn inp then successful_turn inp st else True)
      \<and> only_successful_turns inps (state (main inp st)))"

section \<open>Evaluation of the model\<close>

lemmas value_defs =
  float_is_zero_def truthy_def type_name_def quoted_def key_error_def not_subscriptable_def
  not_iterable_def not_container_def unhashable_def no_attribute_def no_session_attribute_def
  subscript_def contains_def dict_get_def iterate_def is_subclass_def isinstance_def

lemmas display_defs =
  icon_map_def icon_for_def rag_verdict_def web_search_summary_def other_details_def
  event_details_def display_event_def display_trace_events_def

lemmas client_defs =
  raise_for_status_def response_json_def fallback_response_def call_backend_chat_api_def
  chat_call_def handle_def assistant_def user_def display_chat_history_def

lemmas session_defs =
  empty_state_def greeting_def init_session_state_def load_config_def
  render_agent_settings_section_def is_turn_def turn_completed_def turn_failed_def
  successful_turn_def

section \<open>Initialization\<close>

lemma fresh_messages:
  "messages (init_session_state u empty_state) = Some [greeting]"
  by (simp add: init_session_state_def empty_state_def)

lemma init_keeps_initialized:
  "messages st \<noteq> None \<Longrightarrow> session_id st \<noteq> None \<Longrightarrow>
   session_id (init_session_state u st) = session_id st \<and>
   messages (init_session_state u st) = messages st"
  by (auto simp add: init_session_state_def Let_def)

lemma init_sets_all:
  "messages (init_session_state u st) \<noteq> None \<and> session_id (init_session_state u st) \<noteq> None
   \<and> web_search_enabled (init_session_state u st) \<noteq> None"
  by (cases "messages st"; cases "session_id st"; cases "web_search_enabled st")
     (simp_all add: init_session_state_def Let_def)

lemma init_fixed:
  "messages st \<noteq> None \<Longrightarrow> session_id st \<noteq> None \<Longrightarrow> web_search_enabled st \<noteq> None \<Longrightarrow>
   init_session_state u st = st"
  by (auto simp add: init_session_state_def Let_def)

lemma init_keeps_session_id:
  "session_id st = Some sid \<Longrightarrow> session_id (init_session_state u st) = Some sid"
  by (simp add: init_session_state_def Let_def)

text \<open>
  Claim C3.  A freshly initialized session, that is \<^verbatim>\<open>init_session_state\<close> run on the
  empty session state before any user input, has a message sequence of length exactly
  one, and its only entry has the role \<^verbatim>\<open>assistant\<close>.
\<close>

theorem fresh_session_has_one_assistant_message:
  "\<exists>ms. messages (init_session_state u empty_state) = Some ms \<and> length ms = 1
        \<and> role (hd ms) = ''assistant''"
  by (simp add: init_session_state_def empty_state_def greeting_def)

theorem fresh_session_has_one_assistant_message_witness:
  "\<exists>ms. messages (init_session_state ''0b9c4e1a'' empty_state) = Some ms \<and> length ms = 1
        \<and> role (hd ms) = ''assistant''"
  using fresh_session_has_one_assistant_message [of "''0b9c4e1a''"] by simp

text \<open>
  Claim C9.  Initialization is idempotent: a second or any further run of
  \<^verbatim>\<open>init_session_state\<close> on a state that a run of it has left changes nothing, whatever
  identifier the generator would produce this time; and on every state that holds a
  session identifier and a message sequence it leaves both as they are.
\<close>

theorem init_session_state_idempotent:
  "init_session_state u' (init_session_state u st) = init_session_state u st
   \<and> (messages st \<noteq> None \<and> session_id st \<noteq> None \<longrightarrow>
        session_id (init_session_state u st) = session_id st
        \<and> messages (init_session_state u st) = messages st)"
  using init_sets_all [of u st] by (simp add: init_fixed init_keeps_initialized)

theorem init_session_state_idempotent_witness:
  "messages (init_session_state ''first'' empty_state) \<noteq> None
   \<and> session_id (init_session_state ''first'' empty_state) \<noteq> None
   \<and> session_id (init_session_state ''second'' (init_session_state ''first'' empty_state))
       = Some ''first''
   \<and> messages (init_session_state ''second'' (init_session_state ''first'' empty_state))
       = Some [greeting]
   \<and> init_session_state ''third'' (init_session_state ''second'' (init_session_state ''first'' empty_state))
       = init_session_state ''second'' (init_session_state ''first'' empty_state)"
proof -
  have present: "messages (init_session_state ''first'' empty_state) \<noteq> None
      \<and> session_id (init_session_state ''first'' empty_state) \<noteq> None"
    by (simp add: session_defs)
  have before: "session_id (init_session_state ''first'' empty_state) = Some ''first''
      \<and> messages (init_session_state ''first'' empty_state) = Some [greeting]"
    by (simp add: session_defs)
  from init_session_state_idempotent
         [of "''third''" "''second''" "init_session_state ''first'' empty_state"]
       present before
  show ?thesis by simp
qed

section \<open>The display of one trace event\<close>

lemma subscript_dict:
  "subscript (JObj kvs) k = (case map_of kvs k of Some x \<Rightarrow> Inr x | None \<Rightarrow> Inl (key_error k))"
  by (simp add: subscript_def)

lemma contains_dict: "contains k (JObj kvs) = Inr (map_of kvs k \<noteq> None)"
  by (simp add: contains_def)

lemma icon_for_str: "icon_for (JStr s) = Inr (case icon_map s of Some i \<Rightarrow> i | None \<Rightarrow> Gear)"
  by (simp add: icon_for_def)

lemma icon_map_rag_lookup: "icon_map ''rag_lookup'' = Some Books"
  by (simp add: icon_map_def)

lemma rag_verdict_dict:
  assumes "map_of d ''sufficiency_verdict'' = Some verdict"
  shows "rag_verdict (JObj d) =
     Inr ((if verdict = JStr ''Sufficient''
           then Success [Lit ''**RAG Verdict:** '', Val verdict,
                         Lit '' - Relevant info found in Knowledge Base.'']
           else Warning [Lit ''**RAG Verdict:** '', Val verdict,
                         Lit '' - No sufficient info in Knowledge Base. Diverting to Web Search.''])
          # (case map_of d ''retrieved_content_summary'' of
               None \<Rightarrow> []
             | Some summary \<Rightarrow>
                 [Markdown [Lit ''**Retrieved Content Summary:** `'', Val summary, Lit ''`'']]))"
  using assms
  by (cases "map_of d ''retrieved_content_summary''")
     (simp_all add: rag_verdict_def subscript_dict contains_dict Let_def)

lemma event_details_rag_verdict:
  assumes "map_of kvs ''details'' = Some (JObj d)"
    and "map_of d ''sufficiency_verdict'' = Some verdict"
  shows "event_details (JObj kvs) (JStr ''rag_lookup'') = rag_verdict (JObj d)"
  using assms by (simp add: event_details_def subscript_dict contains_dict)

lemma display_event_dict:
  assumes "map_of kvs ''node_name'' = Some (JStr n)"
    and "map_of kvs ''step'' = Some step"
    and "map_of kvs ''description'' = Some description"
  shows "display_event (JObj kvs) =
     (case event_details (JObj kvs) (JStr n) of
        Inl e \<Rightarrow>
          ([Subheader [Icon (case icon_map n of Some i \<Rightarrow> i | None \<Rightarrow> Gear), Lit '' Step '',
                       Val step, Lit '': '', Val (JStr n)],
            Write [Lit ''**Description:** '', Val description]], Some e)
      | Inr ws \<Rightarrow>
          ([Subheader [Icon (case icon_map n of Some i \<Rightarrow> i | None \<Rightarrow> Gear), Lit '' Step '',
                       Val step, Lit '': '', Val (JStr n)],
            Write [Lit ''**Description:** '', Val description]] @ ws @ [Markdown [Lit ''---'']],
           None))"
  using assms by (simp add: display_event_def subscript_dict icon_for_str Let_def)

lemma other_details_dict:
  "map_of kvs ''details'' = Some details \<Longrightarrow>
   other_details (JObj kvs) = Inr (if truthy details then [Json details] else [])"
  by (simp add: other_details_def subscript_dict)

lemma event_details_no_verdict:
  assumes "map_of kvs ''details'' = Some (JObj d)"
    and "map_of d ''sufficiency_verdict'' = None"
  shows "event_details (JObj kvs) (JStr ''rag_lookup'') =
         Inr (if d \<noteq> [] then [Json (JObj d)] else [])"
  using assms by (simp add: event_details_def subscript_dict contains_dict other_details_dict truthy_def)

lemma web_search_summary_dict:
  "map_of d ''retrieved_content_summary'' = Some summary \<Longrightarrow>
   web_search_summary (JObj d) =
     Inr [Markdown [Lit ''**Web Search Content Summary:** `'', Val summary, Lit ''`'']]"
  by (simp add: web_search_summary_def subscript_dict)

lemma event_details_total:
  assumes "map_of kvs ''details'' = Some (JObj d)"
  shows "\<exists>ws. event_details (JObj kvs) (JStr n) = Inr ws"
proof -
  consider (rag) "n = ''rag_lookup''" | (web) "n = ''web_search''"
    | (other) "n \<noteq> ''rag_lookup''" "n \<noteq> ''web_search''" by blast
  then show ?thesis
  proof cases
    case rag
    show ?thesis
    proof (cases "map_of d ''sufficiency_verdict''")
      case None
      with rag assms show ?thesis by (simp add: event_details_no_verdict)
    next
      case (Some verdict)
      with rag assms show ?thesis
        by (simp add: event_details_rag_verdict rag_verdict_dict)
    qed
  next
    case web
    show ?thesis
    proof (cases "map_of d ''retrieved_content_summary''")
      case None
      with web assms show ?thesis
        by (simp add: event_details_def subscript_dict contains_dict other_details_dict)
    next
      case (Some summary)
      with web assms show ?thesis
        by (simp add: event_details_def subscript_dict contains_dict web_search_summary_dict)
    qed
  next
    case other
    with assms show ?thesis by (simp add: event_details_def other_details_dict)
  qed
qed

lemma event_details_without_details:
  assumes "map_of kvs ''details'' = None"
  shows "event_details (JObj kvs) node_name = Inl (key_error ''details'')"
  using assms by (simp add: event_details_def other_details_def subscript_dict)

text \<open>
  Claim C6.  For every trace event with node name \<^verbatim>\<open>rag_lookup\<close> whose details hold a
  \<^verbatim>\<open>sufficiency_verdict\<close>, the display record carries, after the step and description
  lines, a positive line with the text "Relevant info found in Knowledge Base" when the
  verdict equals \<^verbatim>\<open>Sufficient\<close>, and for any other verdict a cautionary line that notes
  the diversion to web search.  A trace event is a dict with the fields \<^verbatim>\<open>step\<close>,
  \<^verbatim>\<open>node_name\<close>, \<^verbatim>\<open>description\<close> and \<^verbatim>\<open>details\<close>, the details being a dict.
\<close>

theorem rag_lookup_verdict_display:
  assumes "map_of kvs ''node_name'' = Some (JStr ''rag_lookup'')"
    and "map_of kvs ''step'' = Some step"
    and "map_of kvs ''description'' = Some description"
    and "map_of kvs ''details'' = Some (JObj d)"
    and "map_of d ''sufficiency_verdict'' = Some verdict"
  shows "display_event (JObj kvs) =
     ([Subheader [Icon Books, Lit '' Step '', Val step, Lit '': '', Val (JStr ''rag_lookup'')],
       Write [Lit ''**Description:** '', Val description],
       (if verdict = JStr ''Sufficient''
        then Success [Lit ''**RAG Verdict:** '', Val verdict,
                      Lit '' - Relevant info found in Knowledge Base.'']
        else Warning [Lit ''**RAG Verdict:** '', Val verdict,
                      Lit '' - No sufficient info in Knowledge Base. Diverting to Web Search.''])]
      @ (case map_of d ''retrieved_content_summary'' of
           None \<Rightarrow> []
         | Some summary \<Rightarrow>
             [Markdown [Lit ''**Retrieved Content Summary:** `'', Val summary, Lit ''`'']])
      @ [Markdown [Lit ''---'']],
      None)"
  by (simp add: display_event_dict [OF assms(1-3)] event_details_rag_verdict [OF assms(4,5)]
        rag_verdict_dict [OF assms(5)] icon_map_rag_lookup)

theorem rag_lookup_verdict_display_witness:
  "display_event
     (JObj [(''step'', JInt 2), (''node_name'', JStr ''rag_lookup''),
            (''description'', JStr ''Looked up the knowledge base''),
            (''details'', JObj [(''sufficiency_verdict'', JStr ''Sufficient'')])])
   = ([Subheader [Icon Books, Lit '' Step '', Val (JInt 2), Lit '': '', Val (JStr ''rag_lookup'')],
       Write [Lit ''**Description:** '', Val (JStr ''Looked up the knowledge base'')],
       Success [Lit ''**RAG Verdict:** '', Val (JStr ''Sufficient''),
                Lit '' - Relevant info found in Knowledge Base.''],
       Markdown [Lit ''---'']], None)
   \<and> display_event
     (JObj [(''step'', JInt 2), (''node_name'', JStr ''rag_lookup''),
            (''description'', JStr ''Looked up the knowledge base''),
            (''details'', JObj [(''sufficiency_verdict'', JStr ''Not Sufficient'')])])
   = ([Subheader [Icon Books, Lit '' Step '', Val (JInt 2), Lit '': '', Val (JStr ''rag_lookup'')],
       Write [Lit ''**Description:** '', Val (JStr ''Looked up the knowledge base'')],
       Warning [Lit ''**RAG Verdict:** '', Val (JStr ''Not Sufficient''),
                Lit '' - No sufficient info in Knowledge Base. Diverting to Web Search.''],
       Markdown [Lit ''---'']], None)"
  using rag_lookup_verdict_display
          [of "[(''step'', JInt 2), (''node_name'', JStr ''rag_lookup''),
                (''description'', JStr ''Looked up the knowledge base''),
                (''details'', JObj [(''sufficiency_verdict'', JStr ''Sufficient'')])]"
              "JInt 2" "JStr ''Looked up the knowledge base''"
              "[(''sufficiency_verdict'', JStr ''Sufficient'')]" "JStr ''Sufficient''"]
        rag_lookup_verdict_display
          [of "[(''step'', JInt 2), (''node_name'', JStr ''rag_lookup''),
                (''description'', JStr ''Looked up the knowledge base''),
                (''details'', JObj [(''sufficiency_verdict'', JStr ''Not Sufficient'')])]"
              "JInt 2" "JStr ''Looked up the knowledge base''"
              "[(''sufficiency_verdict'', JStr ''Not Sufficient'')]" "JStr ''Not Sufficient''"]
  by simp

text \<open>
  Claim C7, as the code has it.  For a trace event with node name \<^verbatim>\<open>rag_lookup\<close> whose
  details hold a \<^verbatim>\<open>retrieved_content_summary\<close>: when the details also hold a
  \<^verbatim>\<open>sufficiency_verdict\<close>, the summary is in the display record as a quoted excerpt;
  when they hold no verdict, no excerpt is derived and the details are shown verbatim
  as JSON.
\<close>

theorem rag_lookup_summary_display:
  assumes "map_of kvs ''node_name'' = Some (JStr ''rag_lookup'')"
    and "map_of kvs ''step'' = Some step"
    and "map_of kvs ''description'' = Some description"
    and "map_of kvs ''details'' = Some (JObj d)"
    and "map_of d ''retrieved_content_summary'' = Some summary"
  shows "(map_of d ''sufficiency_verdict'' \<noteq> None \<longrightarrow>
            snd (display_event (JObj kvs)) = None \<and>
            Markdown [Lit ''**Retrieved Content Summary:** `'', Val summary, Lit ''`'']
              \<in> set (fst (display_event (JObj kvs))))
       \<and> (map_of d ''sufficiency_verdict'' = None \<longrightarrow>
            display_event (JObj kvs) =
              ([Subheader [Icon Books, Lit '' Step '', Val step, Lit '': '', Val (JStr ''rag_lookup'')],
                Write [Lit ''**Description:** '', Val description],
                Json (JObj d),
                Markdown [Lit ''---'']], None))"
proof (intro conjI impI)
  assume "map_of d ''sufficiency_verdict'' \<noteq> None"
  then obtain verdict where v: "map_of d ''sufficiency_verdict'' = Some verdict" by blast
  show "snd (display_event (JObj kvs)) = None"
    by (simp add: display_event_dict [OF assms(1-3)] event_details_rag_verdict [OF assms(4) v]
          rag_verdict_dict [OF v])
  show "Markdown [Lit ''**Retrieved Content Summary:** `'', Val summary, Lit ''`'']
          \<in> set (fst (display_event (JObj kvs)))"
    by (simp add: display_event_dict [OF assms(1-3)] event_details_rag_verdict [OF assms(4) v]
          rag_verdict_dict [OF v] assms(5))
next
  assume n: "map_of d ''sufficiency_verdict'' = None"
  from assms(5) have "d \<noteq> []" by auto
  then show "display_event (JObj kvs) =
              ([Subheader [Icon Books, Lit '' Step '', Val step, Lit '': '', Val (JStr ''rag_lookup'')],
                Write [Lit ''**Description:** '', Val description],
                Json (JObj d),
                Markdown [Lit ''---'']], None)"
    by (simp add: display_event_dict [OF assms(1-3)] event_details_no_verdict [OF assms(4) n]
          icon_map_rag_lookup)
qed

theorem rag_lookup_summary_display_witness:
  "Markdown [Lit ''**Retrieved Content Summary:** `'', Val (JStr ''LangGraph is a library''), Lit ''`'']
     \<in> set (fst (display_event
         (JObj [(''step'', JInt 2), (''node_name'', JStr ''rag_lookup''),
                (''description'', JStr ''Looked up the knowledge base''),
                (''details'', JObj [(''sufficiency_verdict'', JStr ''Sufficient''),
                                    (''retrieved_content_summary'', JStr ''LangGraph is a library'')])])))"
  using rag_lookup_summary_display
          [of "[(''step'', JInt 2), (''node_name'', JStr ''rag_lookup''),
                (''description'', JStr ''Looked up the knowledge base''),
                (''details'', JObj [(''sufficiency_verdict'', JStr ''Sufficient''),
                                    (''retrieved_content_summary'', JStr ''LangGraph is a library'')])]"
              "JInt 2" "JStr ''Looked up the knowledge base''"
              "[(''sufficiency_verdict'', JStr ''Sufficient''),
                (''retrieved_content_summary'', JStr ''LangGraph is a library'')]"
              "JStr ''LangGraph is a library''"]
  by simp

theorem rag_lookup_summary_counterexample:
  "display_event
     (JObj [(''step'', JInt 2), (''node_name'', JStr ''rag_lookup''),
            (''description'', JStr ''Looked up the knowledge base''),
            (''details'', JObj [(''retrieved_content_summary'', JStr ''LangGraph is a library'')])])
   = ([Subheader [Icon Books, Lit '' Step '', Val (JInt 2), Lit '': '', Val (JStr ''rag_lookup'')],
       Write [Lit ''**Description:** '', Val (JStr ''Looked up the knowledge base'')],
       Json (JObj [(''retrieved_content_summary'', JStr ''LangGraph is a library'')]),
       Markdown [Lit ''---'']], None)
   \<and> Markdown [Lit ''**Retrieved Content Summary:** `'', Val (JStr ''LangGraph is a library''), Lit ''`'']
       \<notin> set (fst (display_event
           (JObj [(''step'', JInt 2), (''node_name'', JStr ''rag_lookup''),
                  (''description'', JStr ''Looked up the knowledge base''),
                  (''details'', JObj [(''retrieved_content_summary'', JStr ''LangGraph is a library'')])])))"
  by (simp add: display_event_def subscript_dict icon_for_str icon_map_def event_details_def
        contains_dict other_details_def truthy_def Let_def)

lemma event_details_dict:
  assumes "map_of kvs ''details'' = Some (JObj d)"
  shows "event_details (JObj kvs) (JStr n) =
     Inr (case (if n = ''rag_lookup'' then map_of d ''sufficiency_verdict'' else None) of
            Some verdict \<Rightarrow>
              (if verdict = JStr ''Sufficient''
               then Success [Lit ''**RAG Verdict:** '', Val verdict,
                             Lit '' - Relevant info found in Knowledge Base.'']
               else Warning [Lit ''**RAG Verdict:** '', Val verdict,
                             Lit '' - No sufficient info in Knowledge Base. Diverting to Web Search.''])
              # (case map_of d ''retrieved_content_summary'' of
                   None \<Rightarrow> []
                 | Some summary \<Rightarrow>
                     [Markdown [Lit ''**Retrieved Content Summary:** `'', Val summary, Lit ''`'']])
          | None \<Rightarrow>
              (case (if n = ''web_search'' then map_of d ''retrieved_content_summary'' else None) of
                 Some summary \<Rightarrow>
                   [Markdown [Lit ''**Web Search Content Summary:** `'', Val summary, Lit ''`'']]
               | None \<Rightarrow> (if d = [] then [] else [Json (JObj d)])))"
proof -
  consider (rag) "n = ''rag_lookup''" | (web) "n = ''web_search''"
    | (other) "n \<noteq> ''rag_lookup''" "n \<noteq> ''web_search''" by blast
  then show ?thesis
  proof cases
    case rag
    show ?thesis
    proof (cases "map_of d ''sufficiency_verdict''")
      case None
      with rag assms show ?thesis by (simp add: event_details_no_verdict)
    next
      case (Some verdict)
      with rag assms show ?thesis
        by (simp add: event_details_rag_verdict rag_verdict_dict)
    qed
  next
    case web
    show ?thesis
    proof (cases "map_of d ''retrieved_content_summary''")
      case None
      with web assms show ?thesis
        by (simp add: event_details_def subscript_dict contains_dict other_details_dict truthy_def)
    next
      case (Some summary)
      with web assms show ?thesis
        by (simp add: event_details_def subscript_dict contains_dict web_search_summary_dict)
    qed
  next
    case other
    with assms show ?thesis by (simp add: event_details_def other_details_dict truthy_def)
  qed
qed

text \<open>
  Claim C8, as the code has it.  Formatting never fails for an absent field of the
  details.  Every event that carries \<^verbatim>\<open>node_name\<close> (a string), \<^verbatim>\<open>step\<close>,
  \<^verbatim>\<open>description\<close> and \<^verbatim>\<open>details\<close> (a dict) yields a display record: the step line,
  the description line, the detail lines and the separator.  The detail lines are, for
  \<^verbatim>\<open>rag_lookup\<close> with a \<^verbatim>\<open>sufficiency_verdict\<close>, the verdict line and behind it the
  summary excerpt if \<^verbatim>\<open>retrieved_content_summary\<close> is present; for \<^verbatim>\<open>web_search\<close> with a
  \<^verbatim>\<open>retrieved_content_summary\<close>, the summary excerpt; in every other case the details
  verbatim as JSON when they are not empty, and nothing when they are.  The four
  fields of the event itself are read by subscript: an event without one of them raises
  \<^verbatim>\<open>KeyError\<close> for the first that is missing, behind the lines put out until then.
\<close>

theorem display_event_total_on_trace_events:
  "(map_of kvs ''node_name'' = Some (JStr n) \<and> map_of kvs ''step'' = Some step
      \<and> map_of kvs ''description'' = Some description \<and> map_of kvs ''details'' = Some (JObj d)
    \<longrightarrow> display_event (JObj kvs) =
           ([Subheader [Icon (case icon_map n of Some i \<Rightarrow> i | None \<Rightarrow> Gear), Lit '' Step '',
                        Val step, Lit '': '', Val (JStr n)],
             Write [Lit ''**Description:** '', Val description]]
            @ (case (if n = ''rag_lookup'' then map_of d ''sufficiency_verdict'' else None) of
                 Some verdict \<Rightarrow>
                   (if verdict = JStr ''Sufficient''
                    then Success [Lit ''**RAG Verdict:** '', Val verdict,
                                  Lit '' - Relevant info found in Knowledge Base.'']
                    else Warning [Lit ''**RAG Verdict:** '', Val verdict,
                                  Lit '' - No sufficient info in Knowledge Base. Diverting to Web Search.''])
                   # (case map_of d ''retrieved_content_summary'' of
                        None \<Rightarrow> []
                      | Some summary \<Rightarrow>
                          [Markdown [Lit ''**Retrieved Content Summary:** `'', Val summary,
                                     Lit ''`'']])
               | None \<Rightarrow>
                   (case (if n = ''web_search'' then map_of d ''retrieved_content_summary''
                          else None) of
                      Some summary \<Rightarrow>
                        [Markdown [Lit ''**Web Search Content Summary:** `'', Val summary,
                                   Lit ''`'']]
                    | None \<Rightarrow> (if d = [] then [] else [Json (JObj d)])))
            @ [Markdown [Lit ''---'']],
            None))
   \<and> (map_of kvs ''node_name'' = None
    \<longrightarrow> display_event (JObj kvs) = ([], Some (key_error ''node_name'')))
   \<and> (map_of kvs ''node_name'' = Some (JStr n) \<and> map_of kvs ''step'' = None
    \<longrightarrow> display_event (JObj kvs) = ([], Some (key_error ''step'')))
   \<and> (map_of kvs ''node_name'' = Some (JStr n) \<and> map_of kvs ''step'' = Some step
      \<and> map_of kvs ''description'' = None
    \<longrightarrow> display_event (JObj kvs) =
           ([Subheader [Icon (case icon_map n of Some i \<Rightarrow> i | None \<Rightarrow> Gear), Lit '' Step '',
                        Val step, Lit '': '', Val (JStr n)]],
            Some (key_error ''description'')))
   \<and> (map_of kvs ''node_name'' = Some (JStr n) \<and> map_of kvs ''step'' = Some step
      \<and> map_of kvs ''description'' = Some description \<and> map_of kvs ''details'' = None
    \<longrightarrow> display_event (JObj kvs) =
           ([Subheader [Icon (case icon_map n of Some i \<Rightarrow> i | None \<Rightarrow> Gear), Lit '' Step '',
                        Val step, Lit '': '', Val (JStr n)],
             Write [Lit ''**Description:** '', Val description]],
            Some (key_error ''details'')))"
proof (intro conjI impI; (elim conjE)?)
  assume a: "map_of kvs ''node_name'' = Some (JStr n)" "map_of kvs ''step'' = Some step"
    "map_of kvs ''description'' = Some description" "map_of kvs ''details'' = Some (JObj d)"
  show "display_event (JObj kvs) =
           ([Subheader [Icon (case icon_map n of Some i \<Rightarrow> i | None \<Rightarrow> Gear), Lit '' Step '',
                        Val step, Lit '': '', Val (JStr n)],
             Write [Lit ''**Description:** '', Val description]]
            @ (case (if n = ''rag_lookup'' then map_of d ''sufficiency_verdict'' else None) of
                 Some verdict \<Rightarrow>
                   (if verdict = JStr ''Sufficient''
                    then Success [Lit ''**RAG Verdict:** '', Val verdict,
                                  Lit '' - Relevant info found in Knowledge Base.'']
                    else Warning [Lit ''**RAG Verdict:** '', Val verdict,
                                  Lit '' - No sufficient info in Knowledge Base. Diverting to Web Search.''])
                   # (case map_of d ''retrieved_content_summary'' of
                        None \<Rightarrow> []
                      | Some summary \<Rightarrow>
                          [Markdown [Lit ''**Retrieved Content Summary:** `'', Val summary,
                                     Lit ''`'']])
               | None \<Rightarrow>
                   (case (if n = ''web_search'' then map_of d ''retrieved_content_summary''
                          else None) of
                      Some summary \<Rightarrow>
                        [Markdown [Lit ''**Web Search Content Summary:** `'', Val summary,
                                   Lit ''`'']]
                    | None \<Rightarrow> (if d = [] then [] else [Json (JObj d)])))
            @ [Markdown [Lit ''---'']],
            None)"
    by (simp only: display_event_dict [OF a(1-3)] event_details_dict [OF a(4)] sum.case)
next
  assume "map_of kvs ''node_name'' = None"
  then show "display_event (JObj kvs) = ([], Some (key_error ''node_name''))"
    by (simp add: display_event_def subscript_dict)
next
  assume "map_of kvs ''node_name'' = Some (JStr n)" "map_of kvs ''step'' = None"
  then show "display_event (JObj kvs) = ([], Some (key_error ''step''))"
    by (simp add: display_event_def subscript_dict icon_for_str)
next
  assume "map_of kvs ''node_name'' = Some (JStr n)" "map_of kvs ''step'' = Some step"
    "map_of kvs ''description'' = None"
  then show "display_event (JObj kvs) =
           ([Subheader [Icon (case icon_map n of Some i \<Rightarrow> i | None \<Rightarrow> Gear), Lit '' Step '',
                        Val step, Lit '': '', Val (JStr n)]],
            Some (key_error ''description''))"
    by (simp add: display_event_def subscript_dict icon_for_str)
next
  assume a: "map_of kvs ''node_name'' = Some (JStr n)" "map_of kvs ''step'' = Some step"
    "map_of kvs ''description'' = Some description" "map_of kvs ''details'' = None"
  show "display_event (JObj kvs) =
           ([Subheader [Icon (case icon_map n of Some i \<Rightarrow> i | None \<Rightarrow> Gear), Lit '' Step '',
                        Val step, Lit '': '', Val (JStr n)],
             Write [Lit ''**Description:** '', Val description]],
            Some (key_error ''details''))"
    by (simp add: display_event_dict [OF a(1-3)] event_details_without_details [OF a(4)])
qed

theorem display_event_total_on_trace_events_witness:
  "display_event
     (JObj [(''step'', JInt 3), (''node_name'', JStr ''web_search''),
            (''description'', JStr ''Searched the web''),
            (''details'', JObj [(''query'', JStr ''langgraph'')])])
   = ([Subheader [Icon Globe, Lit '' Step '', Val (JInt 3), Lit '': '', Val (JStr ''web_search'')],
       Write [Lit ''**Description:** '', Val (JStr ''Searched the web'')],
       Json (JObj [(''query'', JStr ''langgraph'')]),
       Markdown [Lit ''---'']], None)
   \<and> display_event
     (JObj [(''step'', JInt 3), (''node_name'', JStr ''web_search''),
            (''description'', JStr ''Searched the web'')])
   = ([Subheader [Icon Globe, Lit '' Step '', Val (JInt 3), Lit '': '', Val (JStr ''web_search'')],
       Write [Lit ''**Description:** '', Val (JStr ''Searched the web'')]],
      Some (key_error ''details''))"
  using display_event_total_on_trace_events
          [of "[(''step'', JInt 3), (''node_name'', JStr ''web_search''),
                (''description'', JStr ''Searched the web''),
                (''details'', JObj [(''query'', JStr ''langgraph'')])]"
              "''web_search''" "JInt 3" "JStr ''Searched the web''"
              "[(''query'', JStr ''langgraph'')]"]
        display_event_total_on_trace_events
          [of "[(''step'', JInt 3), (''node_name'', JStr ''web_search''),
                (''description'', JStr ''Searched the web'')]"
              "''web_search''" "JInt 3" "JStr ''Searched the web''" "[]"]
  by (simp add: icon_map_def)

theorem missing_field_counterexample:
  "display_event
     (JObj [(''node_name'', JStr ''router''), (''description'', JStr ''Routing the query''),
            (''details'', JObj [])])
   = ([], Some (Exn KeyError (quoted ''step'')))"
  by (simp add: display_event_def subscript_dict icon_for_str icon_map_def key_error_def)

section \<open>One turn of the chat interface\<close>

lemma render_no_turn:
  "messages st = Some ms \<Longrightarrow> ci = None \<or> ci = Some [] \<Longrightarrow>
   state (render_chat_interface post url ci st) = st
   \<and> traced (render_chat_interface post url ci st) = None"
  by (auto simp add: render_chat_interface_def Let_def)

lemma render_failed:
  assumes "messages st = Some ms" and "prompt \<noteq> []"
    and "chat_call post url prompt st = Inl e"
  shows "state (render_chat_interface post url (Some prompt) st) =
           st\<lparr>messages := Some (ms @ [user prompt, assistant (snd (handle e))])\<rparr>"
    and "traced (render_chat_interface post url (Some prompt) st) = None"
    and "raised (render_chat_interface post url (Some prompt) st) = None"
  using assms by (simp_all add: render_chat_interface_def Let_def)

lemma render_completed:
  assumes "messages st = Some ms" and "prompt \<noteq> []"
    and "chat_call post url prompt st = Inr (agent_response, trace_events)"
    and "snd (display_trace_events trace_events) = None"
  shows "state (render_chat_interface post url (Some prompt) st) =
           st\<lparr>messages := Some (ms @ [user prompt, assistant agent_response])\<rparr>"
    and "traced (render_chat_interface post url (Some prompt) st) = Some trace_events"
    and "raised (render_chat_interface post url (Some prompt) st) = None"
  using assms
  by (cases "display_trace_events trace_events"; simp add: render_chat_interface_def Let_def)+

lemma render_display_raised:
  assumes "messages st = Some ms" and "prompt \<noteq> []"
    and "chat_call post url prompt st = Inr (agent_response, trace_events)"
    and "snd (display_trace_events trace_events) = Some e"
  shows "state (render_chat_interface post url (Some prompt) st) =
           st\<lparr>messages := Some (ms @ [user prompt, assistant agent_response, assistant (snd (handle e))])\<rparr>"
  using assms
  by (cases "display_trace_events trace_events"; simp add: render_chat_interface_def Let_def)

lemma render_keeps_session_id:
  "session_id (state (render_chat_interface post url ci st)) = session_id st"
  by (simp add: render_chat_interface_def Let_def split: option.splits sum.splits prod.splits)

lemma render_keeps_web_search_enabled:
  "web_search_enabled (state (render_chat_interface post url ci st)) = web_search_enabled st"
  by (simp add: render_chat_interface_def Let_def split: option.splits sum.splits prod.splits)

lemma main_keeps_session_id:
  assumes "session_id st = Some sid"
  shows "session_id (state (main inp st)) = Some sid"
proof (cases "render_agent_settings_section (input_checkbox inp)
                (init_session_state (input_uuid4 inp) st)")
  case (Inl e)
  with init_keeps_session_id [OF assms] show ?thesis by (simp add: main_def Let_def)
next
  case (Inr st2)
  then have "session_id st2 = session_id (init_session_state (input_uuid4 inp) st)"
    by (auto simp add: render_agent_settings_section_def split: option.splits)
  with Inr init_keeps_session_id [OF assms] show ?thesis
    by (simp add: main_def Let_def render_keeps_session_id)
qed

lemma session_keeps_session_id:
  "session_id st = Some sid \<Longrightarrow> session_id (session inps st) = Some sid"
  by (induction inps arbitrary: st) (simp_all add: main_keeps_session_id)

lemma call_backend_on_dict:
  assumes "post (url @ ''/chat/'')
             \<lparr>payload_session_id = sid, payload_query = query,
              payload_enable_web_search = enabled\<rparr> = Returns r"
    and "status_code r < 400 \<or> 600 \<le> status_code r"
    and "body r = Decoded (JObj kvs)"
  shows "call_backend_chat_api post url sid query enabled =
           Inr (case map_of kvs ''response'' of
                  Some x \<Rightarrow> x
                | None \<Rightarrow> JStr ''Sorry, I couldn't get a response from the agent.'',
                case map_of kvs ''trace_events'' of Some t \<Rightarrow> t | None \<Rightarrow> JArr [])"
  using assms
  by (auto simp add: call_backend_chat_api_def raise_for_status_def response_json_def
        dict_get_def fallback_response_def)

lemma display_no_trace: "display_trace_events (JArr []) = ([], None)"
  by (simp add: display_trace_events_def truthy_def)

lemma render_display_raised_traced:
  assumes "messages st = Some ms" and "prompt \<noteq> []"
    and "chat_call post url prompt st = Inr (agent_response, trace_events)"
    and "snd (display_trace_events trace_events) = Some e"
  shows "traced (render_chat_interface post url (Some prompt) st) = Some trace_events"
  using assms
  by (cases "display_trace_events trace_events"; simp add: render_chat_interface_def Let_def)

lemma call_backend_on_other:
  assumes "post (url @ ''/chat/'')
             \<lparr>payload_session_id = sid, payload_query = query,
              payload_enable_web_search = enabled\<rparr> = Returns r"
    and "status_code r < 400 \<or> 600 \<le> status_code r"
    and "body r = Decoded data"
    and "\<forall>kvs. data \<noteq> JObj kvs"
  shows "call_backend_chat_api post url sid query enabled = Inl (no_attribute data ''get'')"
  using assms
  by (cases data)
     (auto simp add: call_backend_chat_api_def raise_for_status_def response_json_def dict_get_def)

text \<open>
  In a turn that is completed or has failed, exactly one user message and one
  assistant message are appended, and a failed turn hands no trace to the display.
\<close>

lemma completed_or_failed_turn_appends_one_pair:
  assumes "messages st = Some ms" and "prompt \<noteq> []"
    and "turn_completed post url prompt st \<or> turn_failed post url prompt st"
  shows "(\<exists>c. messages (state (render_chat_interface post url (Some prompt) st)) =
               Some (ms @ [\<lparr>role = ''user'', content = JStr prompt\<rparr>,
                           \<lparr>role = ''assistant'', content = c\<rparr>]))
       \<and> (turn_failed post url prompt st \<longrightarrow>
            traced (render_chat_interface post url (Some prompt) st) = None)
       \<and> (traced (render_chat_interface post url (Some prompt) st) \<noteq> None \<longrightarrow>
            turn_completed post url prompt st)"
proof (cases "chat_call post url prompt st")
  case (Inl e)
  from render_failed [OF assms(1,2) Inl] show ?thesis
    by (simp add: user_def assistant_def)
next
  case (Inr r)
  obtain agent_response trace_events where r: "r = (agent_response, trace_events)"
    by (cases r)
  from assms(3) Inr r have ok: "snd (display_trace_events trace_events) = None"
    by (simp add: turn_completed_def turn_failed_def)
  from Inr r have call: "chat_call post url prompt st = Inr (agent_response, trace_events)"
    by simp
  from render_completed [OF assms(1,2) call ok] call ok show ?thesis
    by (simp add: user_def assistant_def turn_completed_def turn_failed_def)
qed

text \<open>
  Claim C1.  The claim asks for exactly one user message and exactly one assistant
  message per finished turn.  The reply is appended inside the \<^verbatim>\<open>try\<close> block before
  the trace is displayed, so when the display raises, here on a trace event without
  fields, the handler appends an error message behind the reply: the turn has appended
  one user message and two assistant messages, after the trace was handed to the
  display.
\<close>

theorem trace_display_failure_appends_two_assistant_messages:
  "messages (state (render_chat_interface
      (\<lambda>url p. Returns \<lparr>status_code = 200, http_error_msg = [],
         body = Decoded (JObj [(''response'', JStr ''Hello''), (''trace_events'', JArr [JObj []])])\<rparr>)
      ''http://localhost:8000'' (Some ''hi'') (init_session_state ''s-1'' empty_state)))
   = Some [\<lparr>role = ''assistant'', content = JStr ''Hello! How can I help you today?''\<rparr>,
           \<lparr>role = ''user'', content = JStr ''hi''\<rparr>,
           \<lparr>role = ''assistant'', content = JStr ''Hello''\<rparr>,
           \<lparr>role = ''assistant'', content = JStr (''Unexpected Error: '' @ quoted ''node_name'')\<rparr>]
   \<and> traced (render_chat_interface
      (\<lambda>url p. Returns \<lparr>status_code = 200, http_error_msg = [],
         body = Decoded (JObj [(''response'', JStr ''Hello''), (''trace_events'', JArr [JObj []])])\<rparr>)
      ''http://localhost:8000'' (Some ''hi'') (init_session_state ''s-1'' empty_state))
   = Some (JArr [JObj []])"
proof -
  have ms: "messages (init_session_state ''s-1'' empty_state) = Some [greeting]"
    by (simp add: session_defs)
  have call: "chat_call (\<lambda>url p. Returns \<lparr>status_code = 200, http_error_msg = [],
         body = Decoded (JObj [(''response'', JStr ''Hello''), (''trace_events'', JArr [JObj []])])\<rparr>)
      ''http://localhost:8000'' ''hi'' (init_session_state ''s-1'' empty_state)
      = Inr (JStr ''Hello'', JArr [JObj []])"
    by (simp add: session_defs client_defs dict_get_def)
  have display: "snd (display_trace_events (JArr [JObj []])) = Some (key_error ''node_name'')"
    by (simp add: display_trace_events_def truthy_def iterate_def display_event_def subscript_dict)
  have "snd (handle (key_error ''node_name'')) = JStr (''Unexpected Error: '' @ quoted ''node_name'')"
    by (simp add: handle_def key_error_def isinstance_def is_subclass_def)
  with render_display_raised [OF ms _ call display]
       render_display_raised_traced [OF ms _ call display]
  show ?thesis
    by (simp add: session_defs user_def assistant_def)
qed

lemma decoding_error_matches_request_handler:
  "snd (handle (Exn RequestsJSONDecodeError msg)) = JStr (''Error: '' @ msg)"
  by (simp add: handle_def isinstance_def is_subclass_def)

text \<open>
  Claim C5.  The claim asks that a reply with a success status and a body that does
  not decode gets the message \<^verbatim>\<open>Error: Invalid response from backend.\<close>  The handler
  with this message stands behind the handler of \<^verbatim>\<open>RequestException\<close>, which the
  decoding error of \<^verbatim>\<open>response.json()\<close> matches first: the message appended is the
  one of a request error.
\<close>

theorem decode_failure_rendered_as_request_error:
  "messages (state (render_chat_interface
      (\<lambda>url p. Returns \<lparr>status_code = 200, http_error_msg = [],
         body = Malformed ''Expecting value: line 1 column 1 (char 0)''\<rparr>)
      ''http://localhost:8000'' (Some ''hi'') (init_session_state ''s-1'' empty_state)))
   = Some [greeting, user ''hi'',
           assistant (JStr ''Error: Expecting value: line 1 column 1 (char 0)'')]
   \<and> JStr ''Error: Expecting value: line 1 column 1 (char 0)''
       \<noteq> JStr ''Error: Invalid response from backend.''"
proof -
  have ms: "messages (init_session_state ''s-1'' empty_state) = Some [greeting]"
    by (simp add: session_defs)
  have call: "chat_call (\<lambda>url p. Returns \<lparr>status_code = 200, http_error_msg = [],
         body = Malformed ''Expecting value: line 1 column 1 (char 0)''\<rparr>)
      ''http://localhost:8000'' ''hi'' (init_session_state ''s-1'' empty_state)
      = Inl (Exn RequestsJSONDecodeError ''Expecting value: line 1 column 1 (char 0)'')"
    by (simp add: session_defs client_defs)
  have "snd (handle (Exn RequestsJSONDecodeError ''Expecting value: line 1 column 1 (char 0)''))
      = JStr ''Error: Expecting value: line 1 column 1 (char 0)''"
    by (simp add: decoding_error_matches_request_handler)
  with render_failed(1) [OF ms _ call] show ?thesis
    by (simp add: session_defs)
qed

text \<open>
  Claim C10, as the code has it.  For every reply with a success status whose decoded
  body is a dict, the chat call does not fail: it returns the value of \<^verbatim>\<open>response\<close>, or
  the fallback text when the key is missing, and the value of \<^verbatim>\<open>trace_events\<close>, or
  the empty list when that key is missing.  The turn is then completed, with the
  returned text as the one assistant message, whenever the trace display accepts the
  returned trace, which it always does when \<^verbatim>\<open>trace_events\<close> is the missing key.  A
  decoded body that is no dict has no method \<^verbatim>\<open>get\<close>: the chat call fails with
  \<^verbatim>\<open>AttributeError\<close>.
\<close>

theorem missing_keys_fall_back:
  assumes "post (url @ ''/chat/'')
             \<lparr>payload_session_id = sid, payload_query = prompt,
              payload_enable_web_search = enabled\<rparr> = Returns r"
    and "status_code r < 400 \<or> 600 \<le> status_code r"
  shows "(body r = Decoded (JObj kvs) \<longrightarrow>
            call_backend_chat_api post url sid prompt enabled =
              Inr (case map_of kvs ''response'' of
                     Some x \<Rightarrow> x
                   | None \<Rightarrow> JStr ''Sorry, I couldn't get a response from the agent.'',
                   case map_of kvs ''trace_events'' of Some t \<Rightarrow> t | None \<Rightarrow> JArr []))
       \<and> (body r = Decoded (JObj kvs) \<and> messages st = Some ms \<and> session_id st = Some sid
            \<and> web_search_enabled st = Some enabled \<and> prompt \<noteq> []
            \<and> snd (display_trace_events
                 (case map_of kvs ''trace_events'' of Some t \<Rightarrow> t | None \<Rightarrow> JArr [])) = None
          \<longrightarrow> turn_completed post url prompt st
            \<and> messages (state (render_chat_interface post url (Some prompt) st)) =
                Some (ms @ [\<lparr>role = ''user'', content = JStr prompt\<rparr>,
                            \<lparr>role = ''assistant'',
                             content = (case map_of kvs ''response'' of
                                          Some x \<Rightarrow> x
                                        | None \<Rightarrow> JStr ''Sorry, I couldn't get a response from the agent.'')\<rparr>]))
       \<and> (map_of kvs ''trace_events'' = None \<longrightarrow>
            snd (display_trace_events
                 (case map_of kvs ''trace_events'' of Some t \<Rightarrow> t | None \<Rightarrow> JArr [])) = None)
       \<and> (body r = Decoded data \<and> (\<forall>kvs'. data \<noteq> JObj kvs') \<longrightarrow>
            call_backend_chat_api post url sid prompt enabled = Inl (no_attribute data ''get''))"
proof (intro conjI impI; (elim conjE)?)
  let ?reply = "case map_of kvs ''response'' of
                  Some x \<Rightarrow> x
                | None \<Rightarrow> JStr ''Sorry, I couldn't get a response from the agent.''"
  let ?trace = "case map_of kvs ''trace_events'' of Some t \<Rightarrow> t | None \<Rightarrow> JArr []"
  {
    assume b: "body r = Decoded (JObj kvs)"
    from assms b show "call_backend_chat_api post url sid prompt enabled = Inr (?reply, ?trace)"
      by (rule call_backend_on_dict [of post url sid prompt enabled r kvs])
  }
  {
    assume b: "body r = Decoded (JObj kvs)" and st: "messages st = Some ms"
      "session_id st = Some sid" "web_search_enabled st = Some enabled"
      and p: "prompt \<noteq> []" and shown: "snd (display_trace_events ?trace) = None"
    from assms b have "call_backend_chat_api post url sid prompt enabled = Inr (?reply, ?trace)"
      by (rule call_backend_on_dict [of post url sid prompt enabled r kvs])
    with st(2,3) have call: "chat_call post url prompt st = Inr (?reply, ?trace)"
      by (simp add: chat_call_def)
    from call shown show "turn_completed post url prompt st"
      by (simp add: turn_completed_def)
    from render_completed(1) [OF st(1) p call shown]
    show "messages (state (render_chat_interface post url (Some prompt) st)) =
            Some (ms @ [\<lparr>role = ''user'', content = JStr prompt\<rparr>,
                        \<lparr>role = ''assistant'', content = ?reply\<rparr>])"
      by (simp add: user_def assistant_def)
  }
  {
    assume "map_of kvs ''trace_events'' = None"
    then show "snd (display_trace_events ?trace) = None" by (simp add: display_no_trace)
  }
  {
    assume b: "body r = Decoded data" and other: "\<forall>kvs'. data \<noteq> JObj kvs'"
    from assms b other
    show "call_backend_chat_api post url sid prompt enabled = Inl (no_attribute data ''get'')"
      by (rule call_backend_on_other [of post url sid prompt enabled r data])
  }
qed

theorem missing_keys_fall_back_witness:
  "call_backend_chat_api
      (\<lambda>url p. Returns \<lparr>status_code = 200, http_error_msg = [],
         body = Decoded (JObj [(''trace_events'',
           JArr [JObj [(''step'', JInt 1), (''node_name'', JStr ''router''),
                       (''description'', JStr ''Routing the query''), (''details'', JObj [])]])])\<rparr>)
      ''http://localhost:8000'' ''s-1'' ''hi'' True
     = Inr (JStr ''Sorry, I couldn't get a response from the agent.'',
            JArr [JObj [(''step'', JInt 1), (''node_name'', JStr ''router''),
                        (''description'', JStr ''Routing the query''), (''details'', JObj [])]])
   \<and> snd (display_trace_events
        (JArr [JObj [(''step'', JInt 1), (''node_name'', JStr ''router''),
                     (''description'', JStr ''Routing the query''), (''details'', JObj [])]])) = None
   \<and> turn_completed
      (\<lambda>url p. Returns \<lparr>status_code = 200, http_error_msg = [],
         body = Decoded (JObj [(''trace_events'',
           JArr [JObj [(''step'', JInt 1), (''node_name'', JStr ''router''),
                       (''description'', JStr ''Routing the query''), (''details'', JObj [])]])])\<rparr>)
      ''http://localhost:8000'' ''hi'' (init_session_state ''s-1'' empty_state)
   \<and> messages (state (render_chat_interface
      (\<lambda>url p. Returns \<lparr>status_code = 200, http_error_msg = [],
         body = Decoded (JObj [(''trace_events'',
           JArr [JObj [(''step'', JInt 1), (''node_name'', JStr ''router''),
                       (''description'', JStr ''Routing the query''), (''details'', JObj [])]])])\<rparr>)
      ''http://localhost:8000'' (Some ''hi'') (init_session_state ''s-1'' empty_state)))
     = Some [greeting, \<lparr>role = ''user'', content = JStr ''hi''\<rparr>,
             \<lparr>role = ''assistant'',
              content = JStr ''Sorry, I couldn't get a response from the agent.''\<rparr>]"
proof -
  let ?trace = "JArr [JObj [(''step'', JInt 1), (''node_name'', JStr ''router''),
                       (''description'', JStr ''Routing the query''), (''details'', JObj [])]]"
  let ?kvs = "[(''trace_events'', ?trace)]"
  let ?r = "\<lparr>status_code = 200, http_error_msg = [], body = Decoded (JObj ?kvs)\<rparr>"
  let ?post = "\<lambda>(url :: string) (p :: payload). Returns ?r"
  let ?st = "init_session_state ''s-1'' empty_state"
  have 1: "?post (''http://localhost:8000'' @ ''/chat/'')
             \<lparr>payload_session_id = ''s-1'', payload_query = ''hi'',
              payload_enable_web_search = True\<rparr> = Returns ?r" by simp
  have 2: "status_code ?r < 400 \<or> 600 \<le> status_code ?r" by simp
  have body: "body ?r = Decoded (JObj ?kvs)" by simp
  have st: "messages ?st = Some [greeting]" "session_id ?st = Some ''s-1''"
    "web_search_enabled ?st = Some True"
    by (simp_all add: session_defs)
  have reply: "(case map_of ?kvs ''response'' of
                  Some x \<Rightarrow> x
                | None \<Rightarrow> JStr ''Sorry, I couldn't get a response from the agent.'')
               = JStr ''Sorry, I couldn't get a response from the agent.''" by simp
  have trace: "(case map_of ?kvs ''trace_events'' of Some t \<Rightarrow> t | None \<Rightarrow> JArr []) = ?trace"
    by simp
  have shown: "snd (display_trace_events ?trace) = None"
    by (simp add: value_defs display_defs)
  note inst = missing_keys_fall_back
         [of ?post "''http://localhost:8000''" "''s-1''" "''hi''" True ?r ?kvs ?st "[greeting]",
          OF 1 2]
  from inst body have a: "call_backend_chat_api ?post ''http://localhost:8000'' ''s-1'' ''hi'' True
      = Inr (JStr ''Sorry, I couldn't get a response from the agent.'', ?trace)"
    unfolding reply trace by blast
  have hyp: "body ?r = Decoded (JObj ?kvs) \<and> messages ?st = Some [greeting]
            \<and> session_id ?st = Some ''s-1'' \<and> web_search_enabled ?st = Some True \<and> ''hi'' \<noteq> []
            \<and> snd (display_trace_events
                 (case map_of ?kvs ''trace_events'' of Some t \<Rightarrow> t | None \<Rightarrow> JArr [])) = None"
    unfolding trace using body st shown by simp
  from inst hyp have b: "turn_completed ?post ''http://localhost:8000'' ''hi'' ?st
      \<and> messages (state (render_chat_interface ?post ''http://localhost:8000'' (Some ''hi'') ?st))
        = Some ([greeting] @ [\<lparr>role = ''user'', content = JStr ''hi''\<rparr>,
             \<lparr>role = ''assistant'',
              content = JStr ''Sorry, I couldn't get a response from the agent.''\<rparr>])"
    unfolding reply by blast
  from a shown b show ?thesis by simp
qed

theorem missing_keys_counterexample:
  "call_backend_chat_api
      (\<lambda>url p. Returns \<lparr>status_code = 200, http_error_msg = [], body = Decoded (JArr [])\<rparr>)
      ''http://localhost:8000'' ''s-1'' ''hi'' True
     = Inl (Exn AttributeError (quoted ''list'' @ '' object has no attribute '' @ quoted ''get''))
   \<and> \<not> turn_completed
      (\<lambda>url p. Returns \<lparr>status_code = 200, http_error_msg = [],
         body = Decoded (JObj [(''trace_events'', JArr [JObj []])])\<rparr>)
      ''http://localhost:8000'' ''hi'' (init_session_state ''s-1'' empty_state)
   \<and> messages (state (render_chat_interface
      (\<lambda>url p. Returns \<lparr>status_code = 200, http_error_msg = [],
         body = Decoded (JObj [(''trace_events'', JArr [JObj []])])\<rparr>)
      ''http://localhost:8000'' (Some ''hi'') (init_session_state ''s-1'' empty_state)))
     = Some [\<lparr>role = ''assistant'', content = JStr ''Hello! How can I help you today?''\<rparr>,
             \<lparr>role = ''user'', content = JStr ''hi''\<rparr>,
             \<lparr>role = ''assistant'',
              content = JStr ''Sorry, I couldn't get a response from the agent.''\<rparr>,
             \<lparr>role = ''assistant'',
              content = JStr (''Unexpected Error: '' @ quoted ''node_name'')\<rparr>]"
proof -
  let ?post = "\<lambda>(url :: string) (p :: payload). Returns \<lparr>status_code = 200, http_error_msg = [],
         body = Decoded (JObj [(''trace_events'', JArr [JObj []])])\<rparr>"
  let ?st = "init_session_state ''s-1'' empty_state"
  have first: "call_backend_chat_api
      (\<lambda>url p. Returns \<lparr>status_code = 200, http_error_msg = [], body = Decoded (JArr [])\<rparr>)
      ''http://localhost:8000'' ''s-1'' ''hi'' True
     = Inl (Exn AttributeError (quoted ''list'' @ '' object has no attribute '' @ quoted ''get''))"
    by (simp add: client_defs dict_get_def no_attribute_def type_name_def)
  have ms: "messages ?st = Some [greeting]"
    by (simp add: session_defs)
  have call: "chat_call ?post ''http://localhost:8000'' ''hi'' ?st
      = Inr (JStr ''Sorry, I couldn't get a response from the agent.'', JArr [JObj []])"
    by (simp add: session_defs client_defs dict_get_def)
  have display: "snd (display_trace_events (JArr [JObj []])) = Some (key_error ''node_name'')"
    by (simp add: display_trace_events_def truthy_def iterate_def display_event_def subscript_dict)
  from call display have second: "\<not> turn_completed ?post ''http://localhost:8000'' ''hi'' ?st"
    by (simp add: turn_completed_def)
  have "snd (handle (key_error ''node_name'')) = JStr (''Unexpected Error: '' @ quoted ''node_name'')"
    by (simp add: handle_def key_error_def isinstance_def is_subclass_def)
  with render_display_raised [OF ms _ call display]
  have third: "messages (state (render_chat_interface ?post ''http://localhost:8000'' (Some ''hi'') ?st))
     = Some [\<lparr>role = ''assistant'', content = JStr ''Hello! How can I help you today?''\<rparr>,
             \<lparr>role = ''user'', content = JStr ''hi''\<rparr>,
             \<lparr>role = ''assistant'',
              content = JStr ''Sorry, I couldn't get a response from the agent.''\<rparr>,
             \<lparr>role = ''assistant'',
              content = JStr (''Unexpected Error: '' @ quoted ''node_name'')\<rparr>]"
    by (simp add: session_defs user_def assistant_def)
  from first second third show ?thesis by blast
qed

section \<open>The session over many script runs\<close>

text \<open>
  Claim C4.  The session identifier, once set, is changed by no later operation: the
  chat interface leaves it as it is whatever the outcome of the turn, and so do a whole
  script run and any sequence of script runs, successful, failed or without a turn.
\<close>

theorem session_id_invariant:
  assumes "session_id st = Some sid"
  shows "session_id (state (render_chat_interface post url ci st)) = Some sid
       \<and> session_id (state (main inp st)) = Some sid
       \<and> session_id (session inps st) = Some sid"
  using assms by (simp add: render_keeps_session_id main_keeps_session_id session_keeps_session_id)

theorem session_id_invariant_witness:
  "session_id (init_session_state ''s-1'' empty_state) = Some ''s-1''
   \<and> session_id (session
        [\<lparr>input_base_url = None, input_uuid4 = ''s-2'', input_checkbox = (\<lambda>b. b),
          input_chat = Some ''hi'',
          input_post = (\<lambda>url p. Raises (Exn ConnectionError ''Connection refused''))\<rparr>,
         \<lparr>input_base_url = None, input_uuid4 = ''s-3'', input_checkbox = (\<lambda>b. False),
          input_chat = Some ''again'',
          input_post = (\<lambda>url p. Returns \<lparr>status_code = 200, http_error_msg = [],
             body = Decoded (JObj [(''response'', JStr ''Hello'')])\<rparr>)\<rparr>]
        (init_session_state ''s-1'' empty_state)) = Some ''s-1''"
proof -
  have set: "session_id (init_session_state ''s-1'' empty_state) = Some ''s-1''"
    by (simp add: session_defs)
  from session_id_invariant [OF set] have "session_id (session
        [\<lparr>input_base_url = None, input_uuid4 = ''s-2'', input_checkbox = (\<lambda>b. b),
          input_chat = Some ''hi'',
          input_post = (\<lambda>url p. Raises (Exn ConnectionError ''Connection refused''))\<rparr>,
         \<lparr>input_base_url = None, input_uuid4 = ''s-3'', input_checkbox = (\<lambda>b. False),
          input_chat = Some ''again'',
          input_post = (\<lambda>url p. Returns \<lparr>status_code = 200, http_error_msg = [],
             body = Decoded (JObj [(''response'', JStr ''Hello'')])\<rparr>)\<rparr>]
        (init_session_state ''s-1'' empty_state)) = Some ''s-1''"
    by blast
  with set show ?thesis by blast
qed

lemma main_on_initialized:
  assumes "messages st = Some ms" and "session_id st = Some sid"
    and "web_search_enabled st = Some enabled"
  shows "main inp st =
           render_chat_interface (input_post inp) (load_config (input_base_url inp))
             (input_chat inp) (st\<lparr>web_search_enabled := Some (input_checkbox inp enabled)\<rparr>)"
  using assms by (simp add: main_def init_fixed render_agent_settings_section_def Let_def)

lemma main_without_turn:
  assumes "messages st = Some ms" and "session_id st = Some sid"
    and "web_search_enabled st = Some enabled" and "\<not> is_turn inp"
  shows "messages (state (main inp st)) = Some ms
       \<and> web_search_enabled (state (main inp st)) = Some (input_checkbox inp enabled)"
proof -
  from assms(4) have "input_chat inp = None \<or> input_chat inp = Some []"
    by (auto simp add: is_turn_def split: option.splits)
  moreover have "messages (st\<lparr>web_search_enabled := Some (input_checkbox inp enabled)\<rparr>) = Some ms"
    using assms(1) by simp
  ultimately show ?thesis
    using render_no_turn [of "st\<lparr>web_search_enabled := Some (input_checkbox inp enabled)\<rparr>" ms
            "input_chat inp" "input_post inp" "load_config (input_base_url inp)"]
    by (simp add: main_on_initialized [OF assms(1-3)])
qed

lemma main_successful_turn:
  assumes "messages st = Some ms" and "session_id st = Some sid"
    and "web_search_enabled st = Some enabled" and "successful_turn inp st"
  shows "\<exists>prompt reply. messages (state (main inp st)) = Some (ms @ [user prompt, assistant reply])
       \<and> web_search_enabled (state (main inp st)) = Some (input_checkbox inp enabled)"
proof -
  let ?st2 = "st\<lparr>web_search_enabled := Some (input_checkbox inp enabled)\<rparr>"
  let ?url = "load_config (input_base_url inp)"
  have settings: "render_agent_settings_section (input_checkbox inp)
                    (init_session_state (input_uuid4 inp) st) = Inr ?st2"
    using assms(1-3) by (simp add: init_fixed render_agent_settings_section_def)
  from assms(4) obtain prompt where p: "input_chat inp = Some prompt" "prompt \<noteq> []"
    and completed: "turn_completed (input_post inp) ?url prompt ?st2"
    by (auto simp add: successful_turn_def settings split: option.splits)
  from completed obtain reply trace_events
    where call: "chat_call (input_post inp) ?url prompt ?st2 = Inr (reply, trace_events)"
      and shown: "snd (display_trace_events trace_events) = None"
    by (auto simp add: turn_completed_def split: sum.splits)
  have ms2: "messages ?st2 = Some ms" using assms(1) by simp
  from render_completed(1) [OF ms2 p(2) call shown] p(1)
  have "state (main inp st) = ?st2\<lparr>messages := Some (ms @ [user prompt, assistant reply])\<rparr>"
    by (simp add: main_on_initialized [OF assms(1-3)])
  then show ?thesis by auto
qed

lemma session_messages:
  assumes "messages st = Some ms" and "session_id st = Some sid"
    and "web_search_enabled st = Some enabled" and "only_successful_turns inps st"
  shows "\<exists>new. messages (session inps st) = Some (ms @ new)
           \<and> length new = 2 * length (filter is_turn inps)
           \<and> (\<forall>j<length new. role (new ! j) = (if even j then ''user'' else ''assistant''))"
  using assms
proof (induction inps arbitrary: st ms enabled)
  case Nil
  then show ?case by simp
next
  case (Cons inp inps)
  have sid': "session_id (state (main inp st)) = Some sid"
    by (rule main_keeps_session_id [OF Cons.prems(2)])
  from Cons.prems(4) have rest: "only_successful_turns inps (state (main inp st))" by simp
  show ?case
  proof (cases "is_turn inp")
    case False
    from main_without_turn [OF Cons.prems(1-3) False]
    have ms': "messages (state (main inp st)) = Some ms"
      and en': "web_search_enabled (state (main inp st)) = Some (input_checkbox inp enabled)"
      by simp_all
    from Cons.IH [OF ms' sid' en' rest] False show ?thesis by simp
  next
    case True
    with Cons.prems(4) have "successful_turn inp st" by simp
    from main_successful_turn [OF Cons.prems(1-3) this]
    obtain prompt reply
      where ms': "messages (state (main inp st)) = Some (ms @ [user prompt, assistant reply])"
        and en': "web_search_enabled (state (main inp st)) = Some (input_checkbox inp enabled)"
      by blast
    from Cons.IH [OF ms' sid' en' rest]
    obtain new where new: "messages (session inps (state (main inp st)))
                             = Some ((ms @ [user prompt, assistant reply]) @ new)"
      and len: "length new = 2 * length (filter is_turn inps)"
      and alt: "\<forall>j<length new. role (new ! j) = (if even j then ''user'' else ''assistant'')"
      by blast
    let ?new = "user prompt # assistant reply # new"
    have "messages (session (inp # inps) st) = Some (ms @ ?new)" using new by simp
    moreover have "length ?new = 2 * length (filter is_turn (inp # inps))"
      using len True by simp
    moreover have "\<forall>j<length ?new. role (?new ! j) = (if even j then ''user'' else ''assistant'')"
    proof (intro allI impI)
      fix j assume j: "j < length ?new"
      show "role (?new ! j) = (if even j then ''user'' else ''assistant'')"
      proof (cases "j < 2")
        case True
        then have "j = 0 \<or> j = 1" by arith
        then show ?thesis by (auto simp add: user_def assistant_def)
      next
        case False
        then obtain i where i: "j = Suc (Suc i)" by (metis less_2_cases_iff not0_implies_Suc)
        with j have "i < length new" by simp
        with alt have "role (new ! i) = (if even i then ''user'' else ''assistant'')" by blast
        with i show ?thesis by simp
      qed
    qed
    ultimately show ?thesis by blast
  qed
qed

text \<open>
  Claim C2.  For every \<open>N\<close>, after \<open>N\<close> successful turns that follow the
  initialization of a fresh session, with any number of script runs without a turn in
  between, the message sequence has the length \<open>1 + 2 * N\<close>, and from the index 1 on
  the roles alternate \<^verbatim>\<open>user\<close>, \<^verbatim>\<open>assistant\<close>.
\<close>

theorem messages_after_successful_turns:
  assumes "only_successful_turns inps (init_session_state u empty_state)"
  shows "\<exists>ms. messages (session inps (init_session_state u empty_state)) = Some ms
           \<and> length ms = 1 + 2 * length (filter is_turn inps)
           \<and> (\<forall>i. 1 \<le> i \<and> i < length ms \<longrightarrow>
                  role (ms ! i) = (if odd i then ''user'' else ''assistant''))"
proof -
  have start: "messages (init_session_state u empty_state) = Some [greeting]"
    "session_id (init_session_state u empty_state) = Some u"
    "web_search_enabled (init_session_state u empty_state) = Some True"
    by (simp_all add: session_defs)
  from session_messages [OF start assms]
  obtain new where new: "messages (session inps (init_session_state u empty_state))
                           = Some ([greeting] @ new)"
    and len: "length new = 2 * length (filter is_turn inps)"
    and alt: "\<forall>j<length new. role (new ! j) = (if even j then ''user'' else ''assistant'')"
    by blast
  have "\<forall>i. 1 \<le> i \<and> i < length (greeting # new) \<longrightarrow>
          role ((greeting # new) ! i) = (if odd i then ''user'' else ''assistant'')"
  proof (intro allI impI)
    fix i assume "1 \<le> i \<and> i < length (greeting # new)"
    then obtain j where j: "i = Suc j" "j < length new" by (cases i) auto
    with alt have "role (new ! j) = (if even j then ''user'' else ''assistant'')" by blast
    with j show "role ((greeting # new) ! i) = (if odd i then ''user'' else ''assistant'')"
      by simp
  qed
  with new len show ?thesis by simp
qed

theorem messages_after_successful_turns_witness:
  "only_successful_turns
     [\<lparr>input_base_url = None, input_uuid4 = ''s-2'', input_checkbox = (\<lambda>b. b),
       input_chat = None,
       input_post = (\<lambda>url p. Raises (Exn ConnectionError ''Connection refused''))\<rparr>,
      \<lparr>input_base_url = None, input_uuid4 = ''s-3'', input_checkbox = (\<lambda>b. b),
       input_chat = Some ''hi'',
       input_post = (\<lambda>url p. Returns \<lparr>status_code = 200, http_error_msg = [],
          body = Decoded (JObj [(''response'', JStr ''Hello''), (''trace_events'', JArr [])])\<rparr>)\<rparr>]
     (init_session_state ''s-1'' empty_state)
   \<and> (\<exists>ms. messages (session
     [\<lparr>input_base_url = None, input_uuid4 = ''s-2'', input_checkbox = (\<lambda>b. b),
       input_chat = None,
       input_post = (\<lambda>url p. Raises (Exn ConnectionError ''Connection refused''))\<rparr>,
      \<lparr>input_base_url = None, input_uuid4 = ''s-3'', input_checkbox = (\<lambda>b. b),
       input_chat = Some ''hi'',
       input_post = (\<lambda>url p. Returns \<lparr>status_code = 200, http_error_msg = [],
          body = Decoded (JObj [(''response'', JStr ''Hello''), (''trace_events'', JArr [])])\<rparr>)\<rparr>]
     (init_session_state ''s-1'' empty_state)) = Some ms
       \<and> length ms = 3
       \<and> role (ms ! 1) = ''user'' \<and> role (ms ! 2) = ''assistant'')"
proof -
  let ?idle = "\<lparr>input_base_url = None, input_uuid4 = ''s-2'', input_checkbox = (\<lambda>b. b),
       input_chat = None,
       input_post = (\<lambda>url p. Raises (Exn ConnectionError ''Connection refused''))\<rparr>"
  let ?turn = "\<lparr>input_base_url = None, input_uuid4 = ''s-3'', input_checkbox = (\<lambda>b. b),
       input_chat = Some ''hi'',
       input_post = (\<lambda>url p. Returns \<lparr>status_code = 200, http_error_msg = [],
          body = Decoded (JObj [(''response'', JStr ''Hello''), (''trace_events'', JArr [])])\<rparr>)\<rparr>"
  let ?st = "init_session_state ''s-1'' empty_state"
  have idle: "\<not> is_turn ?idle" by (simp add: is_turn_def)
  have turn: "is_turn ?turn" by (simp add: is_turn_def)
  have same: "state (main ?idle ?st) = ?st"
    by (simp add: main_def session_defs render_chat_interface_def Let_def)
  have ok: "successful_turn ?turn ?st"
    by (simp add: session_defs client_defs dict_get_def display_no_trace)
  from idle turn same ok have hyp: "only_successful_turns [?idle, ?turn] ?st" by simp
  from messages_after_successful_turns [OF hyp]
  obtain ms where ms: "messages (session [?idle, ?turn] ?st) = Some ms"
    and len: "length ms = 1 + 2 * length (filter is_turn [?idle, ?turn])"
    and alt: "\<forall>i. 1 \<le> i \<and> i < length ms \<longrightarrow>
                role (ms ! i) = (if odd i then ''user'' else ''assistant'')"
    by blast
  from len idle turn have len3: "length ms = 3" by simp
  from alt len3 have "role (ms ! 1) = ''user''" by simp
  moreover from alt len3 have "role (ms ! 2) = ''assistant''" by simp
  ultimately show ?thesis using hyp ms len3 by blast
qed

end
